theory Spec2Isabelle
  imports Complex_Main
begin

section \<open>Values of the host language\<close>

text \<open>
  The analyzer (\<^verbatim>\<open>src/ai/analyzer.ts\<close>) is TypeScript whose types are erased at run
  time: what \<^verbatim>\<open>JSON.parse\<close> returns is typed \<^verbatim>\<open>any\<close>, and the field normalisers
  receive whatever the model wrote. The embedding therefore carries the run-time values.

  Texts are \<^typ>\<open>string\<close>: sequences of 8-bit characters, standing for the code units
  \<open>0..255\<close> of a JavaScript string (the Latin-1 range).

  Numbers: a finite number is kept as the decimal \<open>m * 10 ^ e\<close> that the text denotes,
  normalised so that \<open>m\<close> has no trailing zero (\<open>Fin m e\<close>). Rounding to binary64, with
  its overflow to infinity and its underflow to zero, is not modelled: the embedding agrees
  with the program on the decimals that a binary64 number prints back unchanged (up to 15
  significant digits, within the binary64 range). \<open>NaN\<close> and the two infinities are values of
  their own (\<open>Infinity True\<close> is the negative one).
\<close>

datatype jsnum = NaN | Infinity bool | Fin int int

datatype jsval =
    JUndefined
  | JNull
  | JBool bool
  | JNum jsnum
  | JStr string
  | JArr "jsval list"
  | JObj "(string \<times> jsval) list"

text \<open>Exceptions of the primary path, as values.\<close>

datatype error =
    Error string
  | TypeError
  | SyntaxError

text \<open>
  \<^verbatim>\<open>export interface AnalysisResult { sentiment; urgency; confidence; reasoning? }\<close>.
  The sentiment is one of three string literals at run time, so it is a string here;
  \<^verbatim>\<open>reasoning\<close> is passed through from the parsed object unchecked, so it is a value
  (\<open>JUndefined\<close> when absent).
\<close>

record AnalysisResult =
  sentiment :: string
  urgency :: int
  confidence :: jsnum
  reasoning :: jsval

section \<open>String primitives\<close>

text \<open>
  \<^verbatim>\<open>String.prototype.toLowerCase\<close> on the Latin-1 range: \<open>A..Z\<close> and the accented capitals
  \<open>0xC0..0xDE\<close> (without the multiplication sign \<open>0xD7\<close>) go to the letter 32 places up,
  which sets the bit of weight 32 in the code; every other character stays.
\<close>

definition isUpperCase :: "char \<Rightarrow> bool" where
  "isUpperCase c =
     (let n = (of_char c :: nat) in
      (65 \<le> n \<and> n \<le> 90) \<or> (192 \<le> n \<and> n \<le> 222 \<and> n \<noteq> 215))"

definition lower_char :: "char \<Rightarrow> char" where
  "lower_char c =
     (if isUpperCase c
      then (case c of Char b0 b1 b2 b3 b4 b5 b6 b7 \<Rightarrow> Char b0 b1 b2 b3 b4 True b6 b7)
      else c)"

definition toLowerCase :: "string \<Rightarrow> string" where
  "toLowerCase s = map lower_char s"

text \<open>\<^verbatim>\<open>s.startsWith(w)\<close> and \<^verbatim>\<open>s.includes(w)\<close>: \<open>w\<close> occurs in \<open>s\<close> as a contiguous block.\<close>

fun startsWith :: "string \<Rightarrow> string \<Rightarrow> bool" where
  "startsWith s [] = True"
| "startsWith [] (c # w) = False"
| "startsWith (d # s) (c # w) = (d = c \<and> startsWith s w)"

fun js_includes :: "string \<Rightarrow> string \<Rightarrow> bool" where
  "js_includes [] w = (w = [])"
| "js_includes (c # s) w = (startsWith (c # s) w \<or> js_includes s w)"

text \<open>
  White space as \<^verbatim>\<open>trim\<close>, \<^verbatim>\<open>parseInt\<close> and \<^verbatim>\<open>parseFloat\<close> strip it (tab, line feed,
  vertical tab, form feed, carriage return, space, no-break space).
\<close>

definition isWhiteSpace :: "char \<Rightarrow> bool" where
  "isWhiteSpace c =
     (c \<in> {CHR 0x09, CHR 0x0A, CHR 0x0B, CHR 0x0C, CHR 0x0D, CHR 0x20, CHR 0xA0})"

definition trimStart :: "string \<Rightarrow> string" where
  "trimStart s = dropWhile isWhiteSpace s"

definition js_trim :: "string \<Rightarrow> string" where
  "js_trim s = rev (trimStart (rev (trimStart s)))"

definition isDigit :: "char \<Rightarrow> bool" where
  "isDigit c = (c \<in> set ''0123456789'')"

definition isHexDigit :: "char \<Rightarrow> bool" where
  "isHexDigit c = (c \<in> set ''0123456789abcdefABCDEF'')"

text \<open>The value of a digit: its position among the digits (letters count from ten).\<close>

fun indexOf :: "char \<Rightarrow> string \<Rightarrow> nat" where
  "indexOf c [] = 0"
| "indexOf c (d # ds) = (if c = d then 0 else Suc (indexOf c ds))"

definition digitVal :: "char \<Rightarrow> nat" where
  "digitVal c = indexOf c ''0123456789''"

definition hexVal :: "char \<Rightarrow> nat" where
  "hexVal c =
     (if c \<in> set ''ABCDEF'' then 10 + indexOf c ''ABCDEF''
      else indexOf c ''0123456789abcdef'')"

text \<open>The number written by a string of digits, in radix 10 and in radix 16.\<close>

definition digitsVal :: "string \<Rightarrow> nat" where
  "digitsVal ds = foldl (\<lambda>a c. 10 * a + digitVal c) 0 ds"

definition hexDigitsVal :: "string \<Rightarrow> nat" where
  "hexDigitsVal ds = foldl (\<lambda>a c. 16 * a + hexVal c) 0 ds"

text \<open>The decimal digits of a natural number, most significant first.\<close>

definition digitChar :: "nat \<Rightarrow> char" where
  "digitChar d = ''0123456789'' ! d"

fun digits :: "nat \<Rightarrow> string" where
  "digits n =
     (if n < 10 then [digitChar n]
      else digits (n div 10) @ [digitChar (n mod 10)])"

declare digits.simps [simp del]

section \<open>Numbers and their conversions\<close>

text \<open>
  \<open>mkFin neg ds e\<close> is the number \<open>\<plusminus> ds * 10 ^ e\<close> for a string of decimal digits \<open>ds\<close>,
  in normal form: trailing zeros of the digit string move into the exponent, and zero is
  \<open>Fin 0 0\<close>.
\<close>

definition mkFin :: "bool \<Rightarrow> string \<Rightarrow> int \<Rightarrow> jsnum" where
  "mkFin neg ds e =
     (let z = length (takeWhile (\<lambda>c. c = CHR ''0'') (rev ds));
          m = digitsVal (take (length ds - z) ds)
      in if m = 0 then Fin 0 0
         else Fin (if neg then - int m else int m) (e + int z))"

text \<open>The value of a finite number as a rational, to compare it with bounds.\<close>

definition finValue :: "int \<Rightarrow> int \<Rightarrow> rat" where
  "finValue m e =
     (if 0 \<le> e then of_int m * 10 ^ nat e else of_int m / 10 ^ nat (- e))"

text \<open>\<open>0 \<le> x \<le> 1\<close> for a number \<open>x\<close>; false of \<open>NaN\<close> and of the infinities.\<close>

definition inUnitInterval :: "jsnum \<Rightarrow> bool" where
  "inUnitInterval x =
     (case x of Fin m e \<Rightarrow> 0 \<le> finValue m e \<and> finValue m e \<le> 1 | _ \<Rightarrow> False)"

text \<open>
  \<^verbatim>\<open>Number::toString\<close> (radix 10) of ECMA-262: with \<open>k\<close> the number of digits of the
  mantissa and \<open>n = k + e\<close> the position of the decimal point, plain notation for
  \<open>-5 \<le> n \<le> 21\<close> and exponent notation otherwise.
\<close>

definition positiveToString :: "nat \<Rightarrow> int \<Rightarrow> string" where
  "positiveToString m e =
     (let s = digits m; k = int (length s); n = k + e in
      if - 5 \<le> n \<and> n \<le> 21 then
        (if k \<le> n then s @ replicate (nat (n - k)) (CHR ''0'')
         else if 0 < n then take (nat n) s @ ''.'' @ drop (nat n) s
         else ''0.'' @ replicate (nat (- n)) (CHR ''0'') @ s)
      else
        (let ex = (if n - 1 < 0 then ''-'' else ''+'') @ digits (nat \<bar>n - 1\<bar>) in
         if k = 1 then s @ ''e'' @ ex
         else take 1 s @ ''.'' @ drop 1 s @ ''e'' @ ex))"

definition numberToString :: "jsnum \<Rightarrow> string" where
  "numberToString x =
     (case x of
        NaN \<Rightarrow> ''NaN''
      | Infinity neg \<Rightarrow> (if neg then ''-Infinity'' else ''Infinity'')
      | Fin m e \<Rightarrow>
          (if m = 0 then ''0''
           else if m < 0 then ''-'' @ positiveToString (nat (- m)) e
           else positiveToString (nat m) e))"

text \<open>
  \<^verbatim>\<open>ToString\<close> of a value that came out of \<^verbatim>\<open>JSON.parse\<close>. An array joins its elements
  with commas (\<^verbatim>\<open>null\<close> and \<^verbatim>\<open>undefined\<close> elements as the empty string). A plain object
  is \<^verbatim>\<open>[object Object]\<close>, unless it has an own property \<^verbatim>\<open>toString\<close>: a parsed value is
  never callable, \<^verbatim>\<open>valueOf\<close> gives back the object, and the conversion throws.
\<close>

fun ToString :: "jsval \<Rightarrow> error + string"
  and joinElements :: "jsval list \<Rightarrow> error + string" where
  "ToString JUndefined = Inr ''undefined''"
| "ToString JNull = Inr ''null''"
| "ToString (JBool b) = Inr (if b then ''true'' else ''false'')"
| "ToString (JNum x) = Inr (numberToString x)"
| "ToString (JStr s) = Inr s"
| "ToString (JArr xs) = joinElements xs"
| "ToString (JObj kvs) =
     (if ''toString'' \<in> set (map fst kvs) then Inl TypeError else Inr ''[object Object]'')"
| "joinElements [] = Inr []"
| "joinElements (x # xs) =
     (case (if x = JUndefined \<or> x = JNull then Inr [] else ToString x) of
        Inl err \<Rightarrow> Inl err
      | Inr s \<Rightarrow>
          (if xs = [] then Inr s
           else (case joinElements xs of
                   Inl err \<Rightarrow> Inl err
                 | Inr t \<Rightarrow> Inr (s @ '','' @ t))))"

text \<open>
  \<^verbatim>\<open>parseInt(string)\<close> with no radix: leading white space and a sign are skipped, a
  \<^verbatim>\<open>0x\<close> prefix selects radix 16, and the longest run of digits is the result; \<open>None\<close>
  is \<open>NaN\<close> (no digit).
\<close>

definition parseIntString :: "string \<Rightarrow> int option" where
  "parseIntString inputString =
     (let s0 = trimStart inputString;
          neg = startsWith s0 ''-'';
          s1 = (if startsWith s0 ''-'' \<or> startsWith s0 ''+'' then tl s0 else s0);
          hex = (startsWith s1 ''0x'' \<or> startsWith s1 ''0X'');
          s2 = (if hex then drop 2 s1 else s1);
          z = takeWhile (if hex then isHexDigit else isDigit) s2;
          v = int (if hex then hexDigitsVal z else digitsVal z)
      in if z = [] then None else Some (if neg then - v else v))"

definition parseInt :: "jsval \<Rightarrow> error + int option" where
  "parseInt v = (case ToString v of Inl err \<Rightarrow> Inl err | Inr s \<Rightarrow> Inr (parseIntString s))"

text \<open>
  \<^verbatim>\<open>parseFloat(string)\<close>: the longest prefix, after leading white space, that is a
  \<^verbatim>\<open>StrDecimalLiteral\<close>: a sign, then \<^verbatim>\<open>Infinity\<close> or digits with an optional fraction,
  then an exponent if one is complete.
\<close>

definition exponentPart :: "string \<Rightarrow> int" where
  "exponentPart r =
     (if startsWith r ''e'' \<or> startsWith r ''E'' then
        (let r1 = tl r;
             neg = startsWith r1 ''-'';
             r2 = (if startsWith r1 ''-'' \<or> startsWith r1 ''+'' then tl r1 else r1);
             ds = takeWhile isDigit r2
         in if ds = [] then 0
            else if neg then - int (digitsVal ds) else int (digitsVal ds))
      else 0)"

definition parseFloatString :: "string \<Rightarrow> jsnum" where
  "parseFloatString inputString =
     (let s0 = trimStart inputString;
          neg = startsWith s0 ''-'';
          s1 = (if startsWith s0 ''-'' \<or> startsWith s0 ''+'' then tl s0 else s0)
      in if startsWith s1 ''Infinity'' then Infinity neg
         else
           (let ip = takeWhile isDigit s1;
                r1 = drop (length ip) s1;
                fp = (if startsWith r1 ''.'' then takeWhile isDigit (tl r1) else []);
                r2 = (if startsWith r1 ''.'' then drop (length fp) (tl r1) else r1)
            in if ip = [] \<and> fp = [] then NaN
               else mkFin neg (ip @ fp) (exponentPart r2 - int (length fp))))"

definition parseFloat :: "jsval \<Rightarrow> error + jsnum" where
  "parseFloat v = (case ToString v of Inl err \<Rightarrow> Inl err | Inr s \<Rightarrow> Inr (parseFloatString s))"

section \<open>Reading the model's answer\<close>

text \<open>
  \<^verbatim>\<open>s.replace(/LIT\n?/g, '')\<close> for a non-empty literal \<open>LIT\<close>: every occurrence, from left
  to right, is removed together with one line feed that follows it.
\<close>

function removeFence :: "string \<Rightarrow> string \<Rightarrow> string" where
  "removeFence lit [] = []"
| "removeFence lit (c # cs) =
     (if lit \<noteq> [] \<and> startsWith (c # cs) lit then
        (let r = drop (length lit) (c # cs)
         in removeFence lit (if startsWith r [CHR 0x0A] then tl r else r))
      else c # removeFence lit cs)"
  by pat_completeness auto
termination
  by (relation "measure (\<lambda>(lit, s). length s)") (auto simp: Let_def)

text \<open>
  \<^verbatim>\<open>jsonStr.match(/\{[\s\S]*\}/)\<close>: the match starts at the first opening brace; the
  starred class takes every character, line feeds too, and gives back only as far as the
  last closing brace. \<open>None\<close> is \<^verbatim>\<open>null\<close>: no opening brace, or no closing brace after
  it.
\<close>

definition jsonMatch :: "string \<Rightarrow> string option" where
  "jsonMatch jsonStr =
     (let fromOpen = dropWhile (\<lambda>c. c \<noteq> CHR ''{'') jsonStr;
          m = rev (dropWhile (\<lambda>c. c \<noteq> CHR ''}'') (rev fromOpen))
      in if m = [] then None else Some m)"

subsection \<open>\<^verbatim>\<open>JSON.parse\<close>\<close>

text \<open>
  The JSON grammar of ECMA-404, in two passes. The first pass cuts the text into tokens,
  one character at a time: a string runs to its closing quote and decodes its escapes, a
  number or a literal name is the longest run of its characters and is checked as a whole
  when it ends. A \<^verbatim>\<open>\u\<close> escape above \<^verbatim>\<open>00FF\<close> names a code unit outside the modelled
  alphabet and is rejected.
\<close>

datatype token =
    TLBrace | TRBrace | TLBracket | TRBracket | TColon | TComma
  | TValue jsval

datatype lexmode =
    Idle
  | InString string
  | InEscape string
  | InUnicode string string
  | InNumber string
  | InLiteral string

definition jsonNumber :: "string \<Rightarrow> jsnum option" where
  "jsonNumber s =
     (let neg = startsWith s ''-'';
          s1 = (if neg then tl s else s);
          ip = takeWhile isDigit s1;
          r1 = drop (length ip) s1;
          hasFrac = startsWith r1 ''.'';
          fp = (if hasFrac then takeWhile isDigit (tl r1) else []);
          r2 = (if hasFrac then drop (length fp) (tl r1) else r1);
          hasExp = (startsWith r2 ''e'' \<or> startsWith r2 ''E'');
          r3 = (if hasExp then tl r2 else r2);
          eneg = startsWith r3 ''-'';
          r4 = (if hasExp \<and> (startsWith r3 ''-'' \<or> startsWith r3 ''+'') then tl r3 else r3);
          ed = (if hasExp then takeWhile isDigit r4 else []);
          r5 = drop (length ed) r4;
          ex = (if eneg then - int (digitsVal ed) else int (digitsVal ed))
      in if ip = [] \<or> (1 < length ip \<and> startsWith ip ''0'') \<or> (hasFrac \<and> fp = [])
            \<or> (hasExp \<and> ed = []) \<or> r5 \<noteq> []
         then None
         else Some (mkFin neg (ip @ fp) (ex - int (length fp))))"

definition jsonLiteral :: "string \<Rightarrow> jsval option" where
  "jsonLiteral s =
     (if s = ''true'' then Some (JBool True)
      else if s = ''false'' then Some (JBool False)
      else if s = ''null'' then Some JNull
      else None)"

definition escapes :: "(char \<times> char) list" where
  \<open>escapes = [(CHR 0x22, CHR 0x22), (CHR 0x5C, CHR 0x5C), (CHR ''/'', CHR ''/''),
     (CHR ''b'', CHR 0x08), (CHR ''f'', CHR 0x0C), (CHR ''n'', CHR 0x0A),
     (CHR ''r'', CHR 0x0D), (CHR ''t'', CHR 0x09)]\<close>

definition codeUnit :: "nat \<Rightarrow> char option" where
  "codeUnit v = (if v < 256 then Some (char_of v) else None)"

definition emit :: "token \<Rightarrow> token list option \<Rightarrow> token list option" where
  "emit t r = map_option (\<lambda>ts. t # ts) r"

function lex :: "lexmode \<Rightarrow> string \<Rightarrow> token list option" where
  "lex Idle [] = Some []"
| "lex Idle (c # cs) =
     (if c \<in> {CHR 0x20, CHR 0x09, CHR 0x0A, CHR 0x0D} then lex Idle cs
      else if c = CHR ''{'' then emit TLBrace (lex Idle cs)
      else if c = CHR ''}'' then emit TRBrace (lex Idle cs)
      else if c = CHR ''['' then emit TLBracket (lex Idle cs)
      else if c = CHR '']'' then emit TRBracket (lex Idle cs)
      else if c = CHR '':'' then emit TColon (lex Idle cs)
      else if c = CHR '','' then emit TComma (lex Idle cs)
      else if c = CHR 0x22 then lex (InString []) cs
      else if c = CHR ''-'' \<or> isDigit c then lex (InNumber [c]) cs
      else if c \<in> set ''abcdefghijklmnopqrstuvwxyz'' then lex (InLiteral [c]) cs
      else None)"
| "lex (InString acc) [] = None"
| "lex (InString acc) (c # cs) =
     (if c = CHR 0x22 then emit (TValue (JStr acc)) (lex Idle cs)
      else if c = CHR 0x5C then lex (InEscape acc) cs
      else if (of_char c :: nat) < 32 then None
      else lex (InString (acc @ [c])) cs)"
| "lex (InEscape acc) [] = None"
| "lex (InEscape acc) (c # cs) =
     (if c = CHR ''u'' then lex (InUnicode acc []) cs
      else (case map_of escapes c of
              None \<Rightarrow> None
            | Some d \<Rightarrow> lex (InString (acc @ [d])) cs))"
| "lex (InUnicode acc h) [] = None"
| "lex (InUnicode acc h) (c # cs) =
     (if \<not> isHexDigit c then None
      else if length h < 3 then lex (InUnicode acc (h @ [c])) cs
      else (case codeUnit (hexDigitsVal (h @ [c])) of
              None \<Rightarrow> None
            | Some d \<Rightarrow> lex (InString (acc @ [d])) cs))"
| "lex (InNumber acc) [] =
     (case jsonNumber acc of None \<Rightarrow> None | Some x \<Rightarrow> Some [TValue (JNum x)])"
| "lex (InNumber acc) (c # cs) =
     (if c \<in> set ''0123456789+-.eE'' then lex (InNumber (acc @ [c])) cs
      else (case jsonNumber acc of
              None \<Rightarrow> None
            | Some x \<Rightarrow> emit (TValue (JNum x)) (lex Idle (c # cs))))"
| "lex (InLiteral acc) [] =
     (case jsonLiteral acc of None \<Rightarrow> None | Some v \<Rightarrow> Some [TValue v])"
| "lex (InLiteral acc) (c # cs) =
     (if c \<in> set ''abcdefghijklmnopqrstuvwxyz'' then lex (InLiteral (acc @ [c])) cs
      else (case jsonLiteral acc of
              None \<Rightarrow> None
            | Some v \<Rightarrow> emit (TValue v) (lex Idle (c # cs))))"
  by pat_completeness auto
termination
  by (relation "measure (\<lambda>(m, s). 2 * length s + (if m = Idle then 0 else 1))") auto

text \<open>
  The second pass reads the tokens with a stack of the arrays and objects that are still
  open. \<open>InMember kvs k\<close> is an object that has read the key \<open>k\<close> and waits for its value.
\<close>

datatype frame =
    InArray "jsval list"
  | InObject "(string \<times> jsval) list"
  | InMember "(string \<times> jsval) list" string

datatype expect =
    ExpValue
  | ExpValueOrClose
  | ExpKey
  | ExpKeyOrClose
  | ExpColon
  | ExpCommaOrClose
  | ExpEnd jsval

text \<open>A complete value arrives: it is the whole text, an array element or a member's value.\<close>

definition deliver :: "jsval \<Rightarrow> frame list \<Rightarrow> (expect \<times> frame list) option" where
  "deliver v st =
     (case st of
        [] \<Rightarrow> Some (ExpEnd v, [])
      | InArray xs # st' \<Rightarrow> Some (ExpCommaOrClose, InArray (xs @ [v]) # st')
      | InMember kvs k # st' \<Rightarrow> Some (ExpCommaOrClose, InObject (kvs @ [(k, v)]) # st')
      | InObject kvs # st' \<Rightarrow> None)"

definition openValue :: "token \<Rightarrow> frame list \<Rightarrow> (expect \<times> frame list) option" where
  "openValue t st =
     (case t of
        TValue v \<Rightarrow> deliver v st
      | TLBracket \<Rightarrow> Some (ExpValueOrClose, InArray [] # st)
      | TLBrace \<Rightarrow> Some (ExpKeyOrClose, InObject [] # st)
      | _ \<Rightarrow> None)"

definition closeContainer :: "token \<Rightarrow> frame list \<Rightarrow> (expect \<times> frame list) option" where
  "closeContainer t st =
     (case st of
        InArray xs # st' \<Rightarrow> (if t = TRBracket then deliver (JArr xs) st' else None)
      | InObject kvs # st' \<Rightarrow> (if t = TRBrace then deliver (JObj kvs) st' else None)
      | _ \<Rightarrow> None)"

definition readKey :: "token \<Rightarrow> frame list \<Rightarrow> (expect \<times> frame list) option" where
  "readKey t st =
     (case st of
        InObject kvs # st' \<Rightarrow>
          (case t of TValue (JStr k) \<Rightarrow> Some (ExpColon, InMember kvs k # st') | _ \<Rightarrow> None)
      | _ \<Rightarrow> None)"

definition parseStep :: "expect \<Rightarrow> frame list \<Rightarrow> token \<Rightarrow> (expect \<times> frame list) option" where
  "parseStep e st t =
     (case e of
        ExpValue \<Rightarrow> openValue t st
      | ExpValueOrClose \<Rightarrow> (if t = TRBracket then closeContainer t st else openValue t st)
      | ExpKey \<Rightarrow> readKey t st
      | ExpKeyOrClose \<Rightarrow> (if t = TRBrace then closeContainer t st else readKey t st)
      | ExpColon \<Rightarrow> (if t = TColon then Some (ExpValue, st) else None)
      | ExpCommaOrClose \<Rightarrow>
          (if t = TComma then
             (case st of
                InArray xs # st' \<Rightarrow> Some (ExpValue, st)
              | InObject kvs # st' \<Rightarrow> Some (ExpKey, st)
              | _ \<Rightarrow> None)
           else closeContainer t st)
      | ExpEnd v \<Rightarrow> None)"

fun parseTokens :: "expect \<Rightarrow> frame list \<Rightarrow> token list \<Rightarrow> jsval option" where
  "parseTokens e st [] = (case e of ExpEnd v \<Rightarrow> Some v | _ \<Rightarrow> None)"
| "parseTokens e st (t # ts) =
     (case parseStep e st t of
        None \<Rightarrow> None
      | Some (e', st') \<Rightarrow> parseTokens e' st' ts)"

text \<open>\<open>None\<close> is the \<^verbatim>\<open>SyntaxError\<close> of \<^verbatim>\<open>JSON.parse\<close>.\<close>

definition JSON_parse :: "string \<Rightarrow> jsval option" where
  "JSON_parse text = (case lex Idle text of None \<Rightarrow> None | Some ts \<Rightarrow> parseTokens ExpValue [] ts)"

text \<open>
  Reading a property. It throws on \<^verbatim>\<open>undefined\<close> and \<^verbatim>\<open>null\<close>; an object gives the member
  of that name (the last one, when the text repeated a key) or \<^verbatim>\<open>undefined\<close>; the other
  values have none of the names read here.
\<close>

definition getProperty :: "jsval \<Rightarrow> string \<Rightarrow> error + jsval" where
  "getProperty v k =
     (case v of
        JUndefined \<Rightarrow> Inl TypeError
      | JNull \<Rightarrow> Inl TypeError
      | JObj kvs \<Rightarrow> Inr (case map_of (rev kvs) k of None \<Rightarrow> JUndefined | Some x \<Rightarrow> x)
      | _ \<Rightarrow> Inr JUndefined)"

section \<open>The rule-based fallback\<close>

definition positiveWords :: "string list" where
  "positiveWords = [''great'', ''love'', ''excellent'', ''amazing'', ''wonderful'',
     ''fantastic'', ''good'', ''helpful'', ''easy'', ''smooth'']"

definition negativeWords :: "string list" where
  "negativeWords = [''bug'', ''broken'', ''crash'', ''error'', ''fail'', ''slow'', ''bad'',
     ''terrible'', ''worst'', ''issue'']"

definition urgentWords :: "string list" where
  "urgentWords = [''urgent'', ''critical'', ''production'', ''down'', ''blocker'',
     ''immediately'']"

text \<open>\<^verbatim>\<open>words.filter((word) => lowerContent.includes(word)).length\<close>\<close>

definition countMatches :: "string list \<Rightarrow> string \<Rightarrow> nat" where
  "countMatches ws lowerContent = length (filter (\<lambda>word. js_includes lowerContent word) ws)"

definition fallbackSentiment :: "nat \<Rightarrow> nat \<Rightarrow> string" where
  "fallbackSentiment positiveCount negativeCount =
     (if positiveCount > negativeCount then ''positive''
      else if negativeCount > positiveCount then ''negative''
      else ''neutral'')"

definition fallbackUrgency :: "nat \<Rightarrow> nat \<Rightarrow> nat \<Rightarrow> int" where
  "fallbackUrgency positiveCount negativeCount urgentCount =
     (if urgentCount > 0 then 5
      else if negativeCount > 2 then 4
      else if negativeCount > 0 then 3
      else if positiveCount > 0 then 1
      else 3)"

definition fallbackAnalysis :: "string \<Rightarrow> AnalysisResult" where
  "fallbackAnalysis content =
     (let lowerContent = toLowerCase content;
          positiveCount = countMatches positiveWords lowerContent;
          negativeCount = countMatches negativeWords lowerContent;
          urgentCount = countMatches urgentWords lowerContent
      in \<lparr> sentiment = fallbackSentiment positiveCount negativeCount,
            urgency = fallbackUrgency positiveCount negativeCount urgentCount,
            confidence = Fin 5 (- 1),
            reasoning = JStr ''Fallback rule-based analysis'' \<rparr>)"

text \<open>
  The three counts as functions of the text, to state properties of the fallback: how
  many words of a lexicon occur in the lower-cased text.
\<close>

definition positive_count :: "string \<Rightarrow> nat" where
  "positive_count content = countMatches positiveWords (toLowerCase content)"

definition negative_count :: "string \<Rightarrow> nat" where
  "negative_count content = countMatches negativeWords (toLowerCase content)"

definition urgent_count :: "string \<Rightarrow> nat" where
  "urgent_count content = countMatches urgentWords (toLowerCase content)"

section \<open>The model-backed path\<close>

text \<open>
  The model binding is an outside collaborator with a state of its own: a request and the
  state before give an outcome and the state after. \<^verbatim>\<open>await ai.run(...)\<close> either throws
  (\<open>Rejected\<close>) or gives a value (\<open>Resolved\<close>). What is thrown is taken to be an
  \<^verbatim>\<open>Error\<close> object, kept by its message: the \<^verbatim>\<open>catch\<close> block reads \<^verbatim>\<open>error.message\<close>.
\<close>

record ai_request =
  model :: string
  prompt :: string
  max_tokens :: nat

datatype ai_outcome = Rejected string | Resolved jsval

type_synonym 's Ai = "ai_request \<Rightarrow> 's \<Rightarrow> ai_outcome \<times> 's"

text \<open>
  What the functions do to the outside is kept as a list of events in the state: the
  calls of the model, the lines written by \<^verbatim>\<open>console.error\<close>, the calls of the progress
  callback.
\<close>

datatype event =
    AiRun ai_request
  | ConsoleError error
  | OnProgress nat nat

record 's world =
  ai_state :: 's
  events :: "event list"

definition buildPrompt :: "string \<Rightarrow> string" where
  \<open>buildPrompt content =
     ''You are a sentiment analyzer for product feedback. Analyze the following feedback and respond ONLY with a JSON object (no markdown, no extra text) in this exact format:\<newline>'' @
     ''{\<newline>'' @
     ''  "sentiment": "positive|negative|neutral",\<newline>'' @
     ''  "urgency": 1-5,\<newline>'' @
     ''  "confidence": 0.0-1.0,\<newline>'' @
     ''  "reasoning": "brief explanation"\<newline>'' @
     ''}\<newline>'' @
     ''\<newline>'' @
     ''Urgency scale:\<newline>'' @
     ''1 = Nice to have, feature request\<newline>'' @
     ''2 = Minor issue or suggestion\<newline>'' @
     ''3 = Moderate issue\<newline>'' @
     ''4 = Important bug or blocker\<newline>'' @
     ''5 = Critical/production issue, immediate action needed\<newline>'' @
     ''\<newline>'' @
     ''Feedback to analyze: "'' @ content @ ''"\<newline>'' @
     ''\<newline>'' @
     ''JSON response:''\<close>

text \<open>
  \<^verbatim>\<open>function normalizeSentiment(sentiment: string)\<close>. The argument is
  \<^verbatim>\<open>analysis.sentiment\<close>, of type \<^verbatim>\<open>any\<close>: on a value that is not a string the call
  \<^verbatim>\<open>sentiment.toLowerCase()\<close> throws a \<^verbatim>\<open>TypeError\<close>.
\<close>

definition normalizeSentiment :: "jsval \<Rightarrow> error + string" where
  "normalizeSentiment sentimentValue =
     (case sentimentValue of
        JStr str \<Rightarrow>
          (let s = toLowerCase str in
           if js_includes s ''positive'' then Inr ''positive''
           else if js_includes s ''negative'' then Inr ''negative''
           else Inr ''neutral'')
      | _ \<Rightarrow> Inl TypeError)"

text \<open>
  \<^verbatim>\<open>x || d\<close> on the result of \<^verbatim>\<open>parseInt\<close> and of \<^verbatim>\<open>parseFloat\<close>: the default replaces
  the falsy numbers, which are \<open>NaN\<close> and zero.
\<close>

definition orDefaultInt :: "int option \<Rightarrow> int \<Rightarrow> int" where
  "orDefaultInt x d = (case x of None \<Rightarrow> d | Some n \<Rightarrow> if n = 0 then d else n)"

definition orDefaultNum :: "jsnum \<Rightarrow> jsnum \<Rightarrow> jsnum" where
  "orDefaultNum x d = (if x = NaN \<or> x = Fin 0 0 then d else x)"

text \<open>
  The object literal that the \<^verbatim>\<open>try\<close> block returns, field by field in source order:
  \<^verbatim>\<open>normalizeSentiment(analysis.sentiment)\<close>,
  \<^verbatim>\<open>Math.min(5, Math.max(1, parseInt(analysis.urgency) || 3))\<close>,
  \<^verbatim>\<open>parseFloat(analysis.confidence) || 0.7\<close>, \<^verbatim>\<open>analysis.reasoning\<close>.
\<close>

definition normalizeAnalysis :: "jsval \<Rightarrow> error + AnalysisResult" where
  "normalizeAnalysis analysis =
     (case getProperty analysis ''sentiment'' of Inl err \<Rightarrow> Inl err | Inr sv \<Rightarrow>
      case normalizeSentiment sv of Inl err \<Rightarrow> Inl err | Inr sent \<Rightarrow>
      case getProperty analysis ''urgency'' of Inl err \<Rightarrow> Inl err | Inr uv \<Rightarrow>
      case parseInt uv of Inl err \<Rightarrow> Inl err | Inr u \<Rightarrow>
      case getProperty analysis ''confidence'' of Inl err \<Rightarrow> Inl err | Inr cv \<Rightarrow>
      case parseFloat cv of Inl err \<Rightarrow> Inl err | Inr c \<Rightarrow>
      case getProperty analysis ''reasoning'' of Inl err \<Rightarrow> Inl err | Inr rv \<Rightarrow>
        Inr \<lparr> sentiment = sent,
              urgency = min 5 (max 1 (orDefaultInt u 3)),
              confidence = orDefaultNum c (Fin 7 (- 1)),
              reasoning = rv \<rparr>)"

text \<open>
  From \<^verbatim>\<open>(response as any).response\<close> to the text given to \<^verbatim>\<open>JSON.parse\<close>:
  \<^verbatim>\<open>result.trim()\<close> (a \<^verbatim>\<open>TypeError\<close> unless \<^verbatim>\<open>result\<close> is a string), the two
  \<^verbatim>\<open>replace\<close> calls, the \<^verbatim>\<open>match\<close>, and \<^verbatim>\<open>throw new Error(...)\<close> when there is none.
\<close>

definition stripFences :: "string \<Rightarrow> string" where
  "stripFences result = removeFence ''```'' (removeFence ''```json'' (js_trim result))"

definition extractJson :: "jsval \<Rightarrow> error + string" where
  "extractJson response =
     (case getProperty response ''response'' of Inl err \<Rightarrow> Inl err | Inr result \<Rightarrow>
      case result of
        JStr str \<Rightarrow>
          (case jsonMatch (stripFences str) of
             None \<Rightarrow> Inl (Error ''No JSON found in AI response'')
           | Some m \<Rightarrow> Inr m)
      | _ \<Rightarrow> Inl TypeError)"

text \<open>The body of the \<^verbatim>\<open>try\<close> block once \<^verbatim>\<open>ai.run\<close> has returned.\<close>

definition parseResponse :: "jsval \<Rightarrow> error + AnalysisResult" where
  "parseResponse response =
     (case extractJson response of Inl err \<Rightarrow> Inl err | Inr m \<Rightarrow>
      case JSON_parse m of None \<Rightarrow> Inl SyntaxError | Some analysis \<Rightarrow>
        normalizeAnalysis analysis)"

definition primaryPath :: "ai_outcome \<Rightarrow> error + AnalysisResult" where
  "primaryPath outcome =
     (case outcome of Rejected msg \<Rightarrow> Inl (Error msg) | Resolved response \<Rightarrow> parseResponse response)"

definition aiRequest :: "string \<Rightarrow> ai_request" where
  "aiRequest content =
     \<lparr> model = ''@cf/meta/llama-3-8b-instruct'', prompt = buildPrompt content,
       max_tokens = 150 \<rparr>"

text \<open>
  \<^verbatim>\<open>export async function analyzeFeedback(content, ai)\<close>: the \<^verbatim>\<open>try\<close> block, and the
  \<^verbatim>\<open>catch\<close> block that logs the error and returns \<^verbatim>\<open>fallbackAnalysis(content)\<close>.
\<close>

definition analyzeFeedback :: "string \<Rightarrow> 's Ai \<Rightarrow> 's world \<Rightarrow> AnalysisResult \<times> 's world" where
  "analyzeFeedback content ai w =
     (let (outcome, s') = ai (aiRequest content) (ai_state w);
          w1 = w\<lparr>ai_state := s', events := events w @ [AiRun (aiRequest content)]\<rparr>
      in case primaryPath outcome of
           Inr analysis \<Rightarrow> (analysis, w1)
         | Inl err \<Rightarrow> (fallbackAnalysis content, w1\<lparr>events := events w1 @ [ConsoleError err]\<rparr>))"

section \<open>The batch runner\<close>

record feedback =
  feedback_id :: int
  feedback_content :: string






section \<open>Observing a run\<close>

text \<open>
  Constants used to state and to instantiate the properties below: a model that answers
  every request with the same text and keeps its state, a state with no events yet, the
  events other than the lines of \<^verbatim>\<open>console.error\<close>, and the argument pairs of the
  progress calls.
\<close>

definition answers :: "string \<Rightarrow> 's Ai" where
  "answers txt = (\<lambda>req s. (Resolved (JObj [(''response'', JStr txt)]), s))"


definition freshWorld :: "unit world" where
  "freshWorld = \<lparr> ai_state = (), events = [] \<rparr>"



section \<open>Evaluation on concrete inputs\<close>

text \<open>
  The equations that the simplifier unfolds to run the definitions on a given text.
\<close>

lemma replicate_numeral: "replicate (numeral k) x = x # replicate (pred_numeral k) x"
  by (simp add: numeral_eq_Suc)

lemmas string_eval = isUpperCase_def lower_char_def toLowerCase_def
  isWhiteSpace_def trimStart_def js_trim_def isDigit_def isHexDigit_def digitVal_def hexVal_def
  digitsVal_def hexDigitsVal_def

lemmas number_eval = string_eval digitChar_def digits.simps mkFin_def positiveToString_def
  numberToString_def parseIntString_def parseInt_def exponentPart_def parseFloatString_def
  parseFloat_def replicate_numeral Let_def

lemmas json_eval = string_eval mkFin_def jsonNumber_def jsonLiteral_def escapes_def emit_def
  deliver_def openValue_def closeContainer_def readKey_def parseStep_def JSON_parse_def Let_def

lemmas response_eval = string_eval getProperty_def stripFences_def jsonMatch_def extractJson_def

lemmas normalize_eval = number_eval normalizeAnalysis_def normalizeSentiment_def
  getProperty_def orDefaultInt_def orDefaultNum_def

section \<open>Properties of the string primitives\<close>

lemma startsWith_iff: "startsWith s w \<longleftrightarrow> (\<exists>post. s = w @ post)"
  by (induction s w rule: startsWith.induct) auto

lemma js_includes_iff: "js_includes s w \<longleftrightarrow> (\<exists>pre post. s = pre @ w @ post)"
proof (induction s)
  case Nil
  then show ?case by auto
next
  case (Cons c s)
  show ?case
  proof
    assume "js_includes (c # s) w"
    then consider "startsWith (c # s) w" | "js_includes s w" by auto
    then show "\<exists>pre post. c # s = pre @ w @ post"
    proof cases
      case 1
      then obtain post where "c # s = w @ post" by (auto simp: startsWith_iff)
      then have "c # s = [] @ w @ post" by simp
      then show ?thesis by blast
    next
      case 2
      then obtain pre post where "s = pre @ w @ post" using Cons.IH by auto
      then have "c # s = (c # pre) @ w @ post" by simp
      then show ?thesis by blast
    qed
  next
    assume "\<exists>pre post. c # s = pre @ w @ post"
    then obtain pre post where eq: "c # s = pre @ w @ post" by auto
    show "js_includes (c # s) w"
    proof (cases pre)
      case Nil
      with eq have "startsWith (c # s) w" by (auto simp: startsWith_iff)
      then show ?thesis by simp
    next
      case (Cons d pre')
      with eq have "s = pre' @ w @ post" by simp
      then have "js_includes s w" using Cons.IH by blast
      then show ?thesis by simp
    qed
  qed
qed

text \<open>A text that contains \<open>v\<close> contains every block of \<open>v\<close>.\<close>

lemma js_includes_trans:
  assumes "js_includes s v" and "js_includes v w"
  shows "js_includes s w"
proof -
  from assms obtain p1 q1 p2 q2 where "s = p1 @ v @ q1" and "v = p2 @ w @ q2"
    by (auto simp: js_includes_iff)
  then have "s = (p1 @ p2) @ w @ (q2 @ q1)" by simp
  then show ?thesis unfolding js_includes_iff by blast
qed

section \<open>Properties of the number conversions\<close>

lemma digitChar_isDigit: "d < 10 \<Longrightarrow> isDigit (digitChar d)"
proof -
  assume "d < 10"
  then have "d \<in> {0, 1, 2, 3, 4, 5, 6, 7, 8, 9}" by auto
  then show ?thesis by (auto simp: digitChar_def isDigit_def)
qed

lemma digitVal_digitChar: "d < 10 \<Longrightarrow> digitVal (digitChar d) = d"
proof -
  assume "d < 10"
  then have "d \<in> {0, 1, 2, 3, 4, 5, 6, 7, 8, 9}" by auto
  then show ?thesis by (auto simp: digitChar_def digitVal_def)
qed

lemma digits_nonempty: "digits n \<noteq> []"
  by (subst digits.simps) simp

lemma digits_all_digit: "c \<in> set (digits n) \<Longrightarrow> isDigit c"
proof (induction n arbitrary: c rule: digits.induct)
  case (1 n)
  show ?case
  proof (cases "n < 10")
    case True
    with "1.prems" show ?thesis
      by (subst (asm) digits.simps) (simp add: digitChar_isDigit)
  next
    case False
    with "1.prems" have "c \<in> set (digits (n div 10)) \<or> c = digitChar (n mod 10)"
      by (subst (asm) digits.simps) auto
    with False "1.IH" show ?thesis by (auto simp: digitChar_isDigit)
  qed
qed

lemma digitsVal_snoc: "digitsVal (ds @ [c]) = 10 * digitsVal ds + digitVal c"
  by (simp add: digitsVal_def)

lemma digitsVal_digits: "digitsVal (digits n) = n"
proof (induction n rule: digits.induct)
  case (1 n)
  show ?case
  proof (cases "n < 10")
    case True
    then show ?thesis
      by (subst digits.simps) (simp add: digitsVal_def digitVal_digitChar)
  next
    case False
    with "1.IH" have "digitsVal (digits (n div 10)) = n div 10" by simp
    with False show ?thesis
      by (subst digits.simps) (simp add: digitsVal_snoc digitVal_digitChar)
  qed
qed

lemma digitsVal_zeros: "digitsVal (ds @ replicate k (CHR ''0'')) = digitsVal ds * 10 ^ k"
proof (induction k)
  case 0
  then show ?case by simp
next
  case (Suc k)
  have "ds @ replicate (Suc k) (CHR ''0'') = (ds @ replicate k (CHR ''0'')) @ [CHR ''0'']"
    by (simp add: replicate_append_same)
  then show ?case
    using Suc by (simp only: digitsVal_snoc) (simp add: digitVal_def)
qed

text \<open>A number with \<open>k\<close> digits is at least \<open>10 ^ (k - 1)\<close>.\<close>

lemma digits_length_bound: "0 < n \<Longrightarrow> 10 ^ (length (digits n) - 1) \<le> n"
proof (induction n rule: digits.induct)
  case (1 n)
  show ?case
  proof (cases "n < 10")
    case True
    with "1.prems" show ?thesis by (subst digits.simps) simp
  next
    case False
    then have pos: "0 < n div 10" by simp
    with False "1.IH" have ih: "10 ^ (length (digits (n div 10)) - 1) \<le> n div 10" by simp
    have len: "length (digits n) - 1 = Suc (length (digits (n div 10)) - 1)"
      using False digits_nonempty [of "n div 10"]
      by (subst digits.simps) (simp add: Suc_diff_1 length_greater_0_conv)
    have "10 * 10 ^ (length (digits (n div 10)) - 1) \<le> 10 * (n div 10)"
      using ih by simp
    also have "\<dots> \<le> n" by simp
    finally have "10 ^ Suc (length (digits (n div 10)) - 1) \<le> n" by simp
    then show ?thesis by (simp only: len)
  qed
qed

text \<open>\<^verbatim>\<open>parseInt\<close> of a string of digits and of an integer.\<close>

lemma isDigit_plain:
  assumes "isDigit c"
  shows "\<not> isWhiteSpace c" and "c \<noteq> CHR ''-''" and "c \<noteq> CHR ''+''"
    and "c \<noteq> CHR ''x''" and "c \<noteq> CHR ''X''"
  using assms by (auto simp: isDigit_def isWhiteSpace_def)

lemma parseIntString_digits:
  assumes "ds \<noteq> []" and "\<forall>c \<in> set ds. isDigit c"
  shows "parseIntString ds = Some (int (digitsVal ds))"
    and "parseIntString (''-'' @ ds) = Some (- int (digitsVal ds))"
proof -
  from assms obtain c cs where ds: "ds = c # cs" and c: "isDigit c"
    by (cases ds) auto
  have t: "trimStart ds = ds" "trimStart (CHR ''-'' # ds) = CHR ''-'' # ds"
    using isDigit_plain(1) [OF c] by (simp_all add: trimStart_def ds isWhiteSpace_def)
  have sign: "\<not> startsWith ds ''-''" "\<not> startsWith ds ''+''"
    using isDigit_plain [OF c] by (simp_all add: ds)
  have hex: "\<not> startsWith ds ''0x''" "\<not> startsWith ds ''0X''"
  proof -
    show "\<not> startsWith ds ''0x''"
    proof (cases cs)
      case Nil
      then show ?thesis by (simp add: ds)
    next
      case (Cons d r)
      with assms(2) ds have "isDigit d" by simp
      then show ?thesis using isDigit_plain(4) by (auto simp: ds Cons)
    qed
    show "\<not> startsWith ds ''0X''"
    proof (cases cs)
      case Nil
      then show ?thesis by (simp add: ds)
    next
      case (Cons d r)
      with assms(2) ds have "isDigit d" by simp
      then show ?thesis using isDigit_plain(5) by (auto simp: ds Cons)
    qed
  qed
  have all: "takeWhile isDigit ds = ds"
    using assms(2) by (simp add: takeWhile_eq_all_conv)
  show "parseIntString ds = Some (int (digitsVal ds))"
    using assms(1) by (simp add: parseIntString_def Let_def t sign hex all)
  show "parseIntString (''-'' @ ds) = Some (- int (digitsVal ds))"
    using assms(1) by (simp add: parseIntString_def Let_def t sign hex all)
qed

lemma positiveToString_integer:
  assumes "0 < n" and "0 \<le> e" and "int n * 10 ^ nat e < 10 ^ 21"
  shows "positiveToString n e = digits n @ replicate (nat e) (CHR ''0'')"
proof -
  define k where "k = length (digits n)"
  have kpos: "0 < k" using digits_nonempty [of n] by (simp add: k_def)
  have "10 ^ (k - 1) \<le> n"
    using digits_length_bound [OF assms(1)] by (simp only: k_def)
  then have "int (10 ^ (k - 1)) \<le> int n" by (rule of_nat_mono)
  then have "(10::int) ^ (k - 1) \<le> int n" by simp
  then have "(10::int) ^ (k - 1) * 10 ^ nat e \<le> int n * 10 ^ nat e"
    by (rule mult_right_mono) simp
  also note assms(3)
  finally have "(10::int) ^ (k - 1 + nat e) < 10 ^ 21" by (simp only: power_add)
  then have "k - 1 + nat e < 21" by (rule power_less_imp_less_exp [rotated]) simp
  with kpos assms(2) have le: "int k + e \<le> 21" by linarith
  from assms(2) have ge: "- 5 \<le> int k + e" "int k \<le> int k + e"
    and diff: "nat (int k + e - int k) = nat e"
    by simp_all
  have "positiveToString n e =
      (if - 5 \<le> int k + e \<and> int k + e \<le> 21 then
         (if int k \<le> int k + e then digits n @ replicate (nat (int k + e - int k)) (CHR ''0'')
          else if 0 < int k + e then take (nat (int k + e)) (digits n) @ ''.'' @
            drop (nat (int k + e)) (digits n)
          else ''0.'' @ replicate (nat (- (int k + e))) (CHR ''0'') @ digits n)
       else
         (let ex = (if int k + e - 1 < 0 then ''-'' else ''+'') @ digits (nat \<bar>int k + e - 1\<bar>) in
          if int k = 1 then digits n @ ''e'' @ ex
          else take 1 (digits n) @ ''.'' @ drop 1 (digits n) @ ''e'' @ ex))"
    by (simp only: positiveToString_def Let_def k_def)
  also have "\<dots> = digits n @ replicate (nat e) (CHR ''0'')"
    by (simp only: le ge diff if_True simp_thms)
  finally show ?thesis .
qed

lemma parseInt_integer:
  assumes "m \<noteq> 0" and "0 \<le> e" and "\<bar>m\<bar> * 10 ^ nat e < 10 ^ 21"
  shows "parseInt (JNum (Fin m e)) = Inr (Some (m * 10 ^ nat e))"
proof -
  define n where "n = nat \<bar>m\<bar>"
  from assms(1) have pos: "0 < n" by (simp add: n_def)
  have abs: "int n = \<bar>m\<bar>" by (simp add: n_def)
  from assms(3) have small: "int n * 10 ^ nat e < 10 ^ 21" by (simp only: abs)
  let ?s = "digits n @ replicate (nat e) (CHR ''0'')"
  have str: "positiveToString n e = ?s"
    by (rule positiveToString_integer [OF pos assms(2) small])
  have ne: "?s \<noteq> []" using digits_nonempty [of n] by simp
  have zero: "isDigit (CHR ''0'')" by (simp add: isDigit_def)
  have dig: "\<forall>c \<in> set ?s. isDigit c"
    using zero by (auto dest: digits_all_digit)
  have "digitsVal ?s = n * 10 ^ nat e"
    by (simp only: digitsVal_zeros digitsVal_digits)
  then have val: "int (digitsVal ?s) = \<bar>m\<bar> * 10 ^ nat e"
    by (simp add: abs)
  have pos_str: "parseIntString ?s = Some (\<bar>m\<bar> * 10 ^ nat e)"
    using parseIntString_digits(1) [OF ne dig] by (simp only: val)
  have neg_str: "parseIntString (''-'' @ ?s) = Some (- (\<bar>m\<bar> * 10 ^ nat e))"
    using parseIntString_digits(2) [OF ne dig] by (simp only: val)
  show ?thesis
  proof (cases "m < 0")
    case True
    then have "nat (- m) = n" by (simp add: n_def)
    with True assms(1) have "numberToString (Fin m e) = ''-'' @ ?s"
      by (simp add: numberToString_def str)
    then have "parseInt (JNum (Fin m e)) = Inr (Some (- (\<bar>m\<bar> * 10 ^ nat e)))"
      by (simp only: parseInt_def ToString.simps sum.case neg_str)
    with True show ?thesis by simp
  next
    case False
    then have "nat m = n" by (simp add: n_def)
    with False assms(1) have "numberToString (Fin m e) = ?s"
      by (simp add: numberToString_def str)
    then have "parseInt (JNum (Fin m e)) = Inr (Some (\<bar>m\<bar> * 10 ^ nat e))"
      by (simp only: parseInt_def ToString.simps sum.case pos_str)
    with False show ?thesis by simp
  qed
qed

section \<open>Properties of the fallback\<close>

lemma fallbackAnalysis_fields:
  "sentiment (fallbackAnalysis content) =
     fallbackSentiment (positive_count content) (negative_count content)"
  "urgency (fallbackAnalysis content) =
     fallbackUrgency (positive_count content) (negative_count content) (urgent_count content)"
  "confidence (fallbackAnalysis content) = Fin 5 (- 1)"
  "reasoning (fallbackAnalysis content) = JStr ''Fallback rule-based analysis''"
  by (simp_all add: fallbackAnalysis_def positive_count_def negative_count_def
      urgent_count_def Let_def)

lemma fallbackUrgency_cases: "fallbackUrgency p n u \<in> {1, 3, 4, 5}"
  by (simp add: fallbackUrgency_def)

lemma fallbackSentiment_cases:
  "fallbackSentiment p n \<in> {''positive'', ''negative'', ''neutral''}"
  by (simp add: fallbackSentiment_def)

lemma countMatches_card:
  assumes "distinct ws"
  shows "countMatches ws s = card {w \<in> set ws. js_includes s w}"
proof -
  have "{w \<in> set ws. js_includes s w} = {w. js_includes s w} \<inter> set ws" by auto
  with assms show ?thesis by (simp add: countMatches_def distinct_length_filter)
qed

lemma countMatches_pos:
  assumes "w \<in> set ws" and "js_includes s w"
  shows "0 < countMatches ws s"
proof -
  from assms have "\<exists>x \<in> set ws. js_includes s x" by blast
  then have "filter (\<lambda>word. js_includes s word) ws \<noteq> []"
    by (simp add: filter_empty_conv)
  then show ?thesis by (simp add: countMatches_def)
qed

text \<open>
  C8. The fallback decides by the three counts: the sentiment is positive when the
  positive count is the larger, negative when the negative count is the larger, neutral
  on a tie; the urgency is 5 when an urgent word matched, else 4 for more than two
  negative words, else 3 for one or two, else 1 when a positive word matched, else 3; the
  confidence is 0.5. A text that matches no word of any lexicon gets neutral and 3, and
  the text \<^verbatim>\<open>This is broken and needs urgent attention!\<close> gets negative and 5.
\<close>

theorem fallbackAnalysis_decision_rules:
  "sentiment (fallbackAnalysis content) =
     (if negative_count content < positive_count content then ''positive''
      else if positive_count content < negative_count content then ''negative''
      else ''neutral'')
   \<and> urgency (fallbackAnalysis content) =
     (if 0 < urgent_count content then 5
      else if 2 < negative_count content then 4
      else if negative_count content = 1 \<or> negative_count content = 2 then 3
      else if 0 < positive_count content then 1
      else 3)
   \<and> confidence (fallbackAnalysis content) = Fin 5 (- 1)
   \<and> finValue 5 (- 1) = 1 / 2
   \<and> (positive_count content = 0 \<and> negative_count content = 0 \<and> urgent_count content = 0
        \<longrightarrow> sentiment (fallbackAnalysis content) = ''neutral''
            \<and> urgency (fallbackAnalysis content) = 3)
   \<and> sentiment (fallbackAnalysis ''This is broken and needs urgent attention!'') = ''negative''
   \<and> urgency (fallbackAnalysis ''This is broken and needs urgent attention!'') = 5"
proof -
  have ex: "fallbackAnalysis ''This is broken and needs urgent attention!'' =
      \<lparr> sentiment = ''negative'', urgency = 5, confidence = Fin 5 (- 1),
        reasoning = JStr ''Fallback rule-based analysis'' \<rparr>"
    by code_simp
  have half: "finValue 5 (- 1) = 1 / 2" by (simp add: finValue_def)
  have urg: "fallbackUrgency p n u =
      (if 0 < u then 5 else if 2 < n then 4 else if n = 1 \<or> n = 2 then 3
       else if 0 < p then 1 else 3)" for p n u
    by (auto simp: fallbackUrgency_def)
  show ?thesis
    by (simp add: fallbackAnalysis_fields ex half urg fallbackSentiment_def)
qed

theorem fallbackAnalysis_decision_rules_witness:
  "positive_count ''The weather today.'' = 0
   \<and> negative_count ''The weather today.'' = 0
   \<and> urgent_count ''The weather today.'' = 0
   \<and> sentiment (fallbackAnalysis ''The weather today.'') = ''neutral''
   \<and> urgency (fallbackAnalysis ''The weather today.'') = 3
   \<and> confidence (fallbackAnalysis ''The weather today.'') = Fin 5 (- 1)"
proof -
  have counts: "positive_count ''The weather today.'' = 0
      \<and> negative_count ''The weather today.'' = 0
      \<and> urgent_count ''The weather today.'' = 0"
    by code_simp
  from fallbackAnalysis_decision_rules [of "''The weather today.''"]
  have "positive_count ''The weather today.'' = 0
      \<and> negative_count ''The weather today.'' = 0
      \<and> urgent_count ''The weather today.'' = 0
      \<longrightarrow> sentiment (fallbackAnalysis ''The weather today.'') = ''neutral''
          \<and> urgency (fallbackAnalysis ''The weather today.'') = 3"
    and "confidence (fallbackAnalysis ''The weather today.'') = Fin 5 (- 1)"
    by blast+
  with counts show ?thesis by blast
qed

text \<open>
  C9. A lexicon word matches when it occurs anywhere in the lower-cased text as a block of
  characters, inside a longer word too: a text that contains \<^verbatim>\<open>download\<close>, in any
  casing, matches the urgent word \<^verbatim>\<open>down\<close> and gets urgency 5. Each count is the number
  of lexicon words that occur, so a word counts once however often it occurs. Two texts
  with the same lower-cased form get the same result.
\<close>

theorem fallback_matching_is_substring_containment:
  "(js_includes lowerContent word \<longleftrightarrow> (\<exists>pre post. lowerContent = pre @ word @ post))
   \<and> positive_count content =
       card {w \<in> set positiveWords. js_includes (toLowerCase content) w}
   \<and> negative_count content =
       card {w \<in> set negativeWords. js_includes (toLowerCase content) w}
   \<and> urgent_count content =
       card {w \<in> set urgentWords. js_includes (toLowerCase content) w}
   \<and> (js_includes (toLowerCase content) ''download''
        \<longrightarrow> urgency (fallbackAnalysis content) = 5)
   \<and> (toLowerCase content = toLowerCase content' \<longrightarrow>
        fallbackAnalysis content = fallbackAnalysis content')"
proof -
  have dp: "distinct positiveWords" by (simp add: positiveWords_def)
  have dn: "distinct negativeWords" by (simp add: negativeWords_def)
  have du: "distinct urgentWords" by (simp add: urgentWords_def)
  have down: "urgency (fallbackAnalysis content) = 5"
    if "js_includes (toLowerCase content) ''download''"
  proof -
    have "js_includes ''download'' ''down''" by simp
    with that have "js_includes (toLowerCase content) ''down''"
      by (rule js_includes_trans)
    moreover have "''down'' \<in> set urgentWords" by (simp add: urgentWords_def)
    ultimately have "0 < urgent_count content"
      unfolding urgent_count_def by (rule countMatches_pos [rotated])
    then show ?thesis by (simp add: fallbackAnalysis_fields fallbackUrgency_def)
  qed
  have same: "fallbackAnalysis content = fallbackAnalysis content'"
    if "toLowerCase content = toLowerCase content'"
    using that by (simp add: fallbackAnalysis_def)
  show ?thesis
    using down same
    by (simp add: js_includes_iff [symmetric] positive_count_def negative_count_def
        urgent_count_def countMatches_card dp dn du)
qed

theorem fallback_matching_is_substring_containment_witness:
  "js_includes (toLowerCase ''The DownLoad page'') ''download''
   \<and> urgency (fallbackAnalysis ''The DownLoad page'') = 5
   \<and> negative_count ''bug bug BUG'' = 1
   \<and> card {w \<in> set negativeWords. js_includes (toLowerCase ''bug bug BUG'') w} = 1
   \<and> toLowerCase ''SLOW'' = toLowerCase ''slow''
   \<and> fallbackAnalysis ''SLOW'' = fallbackAnalysis ''slow''"
proof -
  have inc: "js_includes (toLowerCase ''The DownLoad page'') ''download''" by code_simp
  have cnt: "negative_count ''bug bug BUG'' = 1" by code_simp
  have low: "toLowerCase ''SLOW'' = toLowerCase ''slow''" by code_simp
  from fallback_matching_is_substring_containment [of "[]" "[]" "''SLOW''" "''slow''"] low
  have same: "fallbackAnalysis ''SLOW'' = fallbackAnalysis ''slow''" by blast
  from fallback_matching_is_substring_containment
         [of "toLowerCase ''The DownLoad page''" "''download''" "''The DownLoad page''"] inc
  have "urgency (fallbackAnalysis ''The DownLoad page'') = 5" by blast
  moreover from fallback_matching_is_substring_containment [of "[]" "[]" "''bug bug BUG''"] cnt
  have "card {w \<in> set negativeWords. js_includes (toLowerCase ''bug bug BUG'') w} = 1"
    by simp
  ultimately show ?thesis using inc cnt low same by blast
qed

text \<open>
  C10. The fallback never gives urgency 2: its urgency is one of 1, 3, 4 and 5.
\<close>

theorem fallbackAnalysis_urgency_never_two:
  "urgency (fallbackAnalysis content) \<in> {1, 3, 4, 5}
   \<and> urgency (fallbackAnalysis content) \<noteq> 2"
proof -
  have "urgency (fallbackAnalysis content) \<in> {1, 3, 4, 5}"
    by (simp only: fallbackAnalysis_fields fallbackUrgency_cases)
  then show ?thesis by auto
qed

theorem fallbackAnalysis_urgency_never_two_witness:
  "urgency (fallbackAnalysis ''Minor typo, easy to fix'') \<in> {1, 3, 4, 5}
   \<and> urgency (fallbackAnalysis ''Minor typo, easy to fix'') \<noteq> 2"
  by (rule fallbackAnalysis_urgency_never_two)

section \<open>Properties of the model-backed path\<close>

lemma analyzeFeedback_result:
  "fst (analyzeFeedback content ai w) =
     (case primaryPath (fst (ai (aiRequest content) (ai_state w))) of
        Inl err \<Rightarrow> fallbackAnalysis content
      | Inr analysis \<Rightarrow> analysis)"
  by (simp add: analyzeFeedback_def split: prod.splits sum.splits)


lemma analyzeFeedback_answers:
  "fst (analyzeFeedback content (answers txt) w) =
     (case parseResponse (JObj [(''response'', JStr txt)]) of
        Inl err \<Rightarrow> fallbackAnalysis content
      | Inr analysis \<Rightarrow> analysis)"
  by (simp add: analyzeFeedback_result answers_def primaryPath_def)

lemma normalizeSentiment_cases:
  "normalizeSentiment v = Inr s \<Longrightarrow> s \<in> {''positive'', ''negative'', ''neutral''}"
  by (auto simp: normalizeSentiment_def Let_def split: jsval.splits if_splits)

lemma normalizeAnalysis_range:
  assumes "normalizeAnalysis analysis = Inr r"
  shows "sentiment r \<in> {''positive'', ''negative'', ''neutral''}"
    and "1 \<le> urgency r" and "urgency r \<le> 5"
proof -
  from assms obtain sv u where sent: "normalizeSentiment sv = Inr (sentiment r)"
    and urg: "urgency r = min 5 (max 1 (orDefaultInt u 3))"
    by (auto simp: normalizeAnalysis_def split: sum.splits)
  from normalizeSentiment_cases [OF sent]
  show "sentiment r \<in> {''positive'', ''negative'', ''neutral''}" .
  from urg show "1 \<le> urgency r" and "urgency r \<le> 5" by auto
qed

lemma primaryPath_range:
  assumes "primaryPath outcome = Inr r"
  shows "sentiment r \<in> {''positive'', ''negative'', ''neutral''}"
    and "1 \<le> urgency r" and "urgency r \<le> 5"
  using assms normalizeAnalysis_range
  by (auto simp: primaryPath_def parseResponse_def split: ai_outcome.splits sum.splits option.splits)

lemma fallbackAnalysis_range:
  "sentiment (fallbackAnalysis content) \<in> {''positive'', ''negative'', ''neutral''}"
  "1 \<le> urgency (fallbackAnalysis content)" "urgency (fallbackAnalysis content) \<le> 5"
  using fallbackUrgency_cases [of "positive_count content" "negative_count content" "urgent_count content"]
    fallbackSentiment_cases [of "positive_count content" "negative_count content"]
  by (auto simp: fallbackAnalysis_fields)

text \<open>
  C4. Whatever the text and whatever the model does, the sentiment of the result is one of
  \<^verbatim>\<open>positive\<close>, \<^verbatim>\<open>negative\<close>, \<^verbatim>\<open>neutral\<close> and its urgency is an integer from 1 to 5;
  this holds of the fallback result and of every result of the model-backed path.
\<close>

theorem analyzeFeedback_sentiment_and_urgency_in_range:
  "sentiment (fst (analyzeFeedback content ai w)) \<in> {''positive'', ''negative'', ''neutral''}
   \<and> 1 \<le> urgency (fst (analyzeFeedback content ai w))
   \<and> urgency (fst (analyzeFeedback content ai w)) \<le> 5
   \<and> sentiment (fallbackAnalysis content) \<in> {''positive'', ''negative'', ''neutral''}
   \<and> 1 \<le> urgency (fallbackAnalysis content)
   \<and> urgency (fallbackAnalysis content) \<le> 5
   \<and> (primaryPath outcome = Inr r \<longrightarrow>
        sentiment r \<in> {''positive'', ''negative'', ''neutral''}
        \<and> 1 \<le> urgency r \<and> urgency r \<le> 5)"
proof (cases "primaryPath (fst (ai (aiRequest content) (ai_state w)))")
  case (Inl err)
  then have "fst (analyzeFeedback content ai w) = fallbackAnalysis content"
    by (simp add: analyzeFeedback_result)
  then show ?thesis
    using fallbackAnalysis_range [of content] primaryPath_range [of outcome r] by simp
next
  case (Inr a)
  then have "fst (analyzeFeedback content ai w) = a"
    by (simp add: analyzeFeedback_result)
  then show ?thesis
    using fallbackAnalysis_range [of content] primaryPath_range [of outcome r]
      primaryPath_range [OF Inr] by simp
qed


theorem analyzeFeedback_sentiment_and_urgency_in_range_witness:
  \<open>primaryPath (Resolved (JObj [(''response'',
       JStr ''{"sentiment":"VeryPositive!","urgency":99,"confidence":"n/a"}'')]))
     = Inr \<lparr> sentiment = ''positive'', urgency = 5, confidence = Fin 7 (- 1),
             reasoning = JUndefined \<rparr>
   \<and> sentiment \<lparr> sentiment = ''positive'', urgency = 5, confidence = Fin 7 (- 1),
             reasoning = JUndefined \<rparr> \<in> {''positive'', ''negative'', ''neutral''}
   \<and> 1 \<le> urgency (fst (analyzeFeedback ''It is down'' (answers ''{"urgency":-7}'') freshWorld))
   \<and> urgency (fst (analyzeFeedback ''It is down'' (answers ''{"urgency":-7}'') freshWorld)) \<le> 5\<close>
proof -
  have e: \<open>extractJson (JObj [(''response'',
        JStr ''{"sentiment":"VeryPositive!","urgency":99,"confidence":"n/a"}'')])
      = Inr ''{"sentiment":"VeryPositive!","urgency":99,"confidence":"n/a"}''\<close>
    by (simp add: response_eval)
  have p: \<open>JSON_parse ''{"sentiment":"VeryPositive!","urgency":99,"confidence":"n/a"}''
      = Some (JObj [(''sentiment'', JStr ''VeryPositive!''), (''urgency'', JNum (Fin 99 0)),
          (''confidence'', JStr ''n/a'')])\<close>
    by (simp add: json_eval)
  have n: \<open>normalizeAnalysis (JObj [(''sentiment'', JStr ''VeryPositive!''),
        (''urgency'', JNum (Fin 99 0)), (''confidence'', JStr ''n/a'')])
      = Inr \<lparr> sentiment = ''positive'', urgency = 5, confidence = Fin 7 (- 1),
             reasoning = JUndefined \<rparr>\<close>
    by (simp add: normalize_eval)
  have pp: \<open>primaryPath (Resolved (JObj [(''response'',
        JStr ''{"sentiment":"VeryPositive!","urgency":99,"confidence":"n/a"}'')]))
      = Inr \<lparr> sentiment = ''positive'', urgency = 5, confidence = Fin 7 (- 1),
             reasoning = JUndefined \<rparr>\<close>
    by (simp add: primaryPath_def parseResponse_def e p n)
  from analyzeFeedback_sentiment_and_urgency_in_range
         [of "''It is down''" \<open>answers ''{"urgency":-7}''\<close> freshWorld _
             "\<lparr> sentiment = ''positive'', urgency = 5, confidence = Fin 7 (- 1),
                reasoning = JUndefined \<rparr>"] pp
  show ?thesis by blast
qed




lemma parse_then_normalize:
  assumes "extractJson response = Inr m" and "JSON_parse m = Some analysis"
  shows "parseResponse response = normalizeAnalysis analysis"
  using assms by (simp add: parseResponse_def)

text \<open>
  C1. The confidence of the model-backed path is \<^verbatim>\<open>parseFloat(analysis.confidence) || 0.7\<close>
  with no bound: an answer that gives confidence 5 is returned with confidence 5, outside
  the scale from 0 to 1 that the interface declares.
\<close>

theorem confidence_is_not_clamped:
  \<open>confidence (fst (analyzeFeedback content
       (answers ''{"sentiment":"neutral","urgency":3,"confidence":5}'') w)) = Fin 5 0
   \<and> finValue 5 0 = 5
   \<and> \<not> inUnitInterval (confidence (fst (analyzeFeedback content
       (answers ''{"sentiment":"neutral","urgency":3,"confidence":5}'') w)))\<close>
proof -
  have e: \<open>extractJson (JObj [(''response'',
        JStr ''{"sentiment":"neutral","urgency":3,"confidence":5}'')])
      = Inr ''{"sentiment":"neutral","urgency":3,"confidence":5}''\<close>
    by (simp add: response_eval)
  have p: \<open>JSON_parse ''{"sentiment":"neutral","urgency":3,"confidence":5}''
      = Some (JObj [(''sentiment'', JStr ''neutral''), (''urgency'', JNum (Fin 3 0)),
          (''confidence'', JNum (Fin 5 0))])\<close>
    by (simp add: json_eval)
  have n: \<open>normalizeAnalysis (JObj [(''sentiment'', JStr ''neutral''),
        (''urgency'', JNum (Fin 3 0)), (''confidence'', JNum (Fin 5 0))])
      = Inr \<lparr> sentiment = ''neutral'', urgency = 3, confidence = Fin 5 0,
             reasoning = JUndefined \<rparr>\<close>
    by (simp add: normalize_eval)
  have v: "finValue 5 0 = 5" by (simp add: finValue_def)
  show ?thesis
    by (simp add: analyzeFeedback_answers parse_then_normalize [OF e p] n v inUnitInterval_def)
qed

text \<open>
  C2. An answer that parses but has no \<^verbatim>\<open>sentiment\<close> member, or one that is not a string,
  makes \<^verbatim>\<open>normalizeSentiment\<close> throw, and the whole classification takes the fallback:
  the urgency and the confidence of the answer are lost. With a string that names no
  sentiment the same answer stays on the model-backed path, with sentiment neutral.
\<close>

theorem missing_sentiment_takes_fallback:
  \<open>fst (analyzeFeedback content (answers ''{"urgency":4,"confidence":0.9}'') w)
     = fallbackAnalysis content
   \<and> reasoning (fst (analyzeFeedback content (answers ''{"urgency":4,"confidence":0.9}'') w))
     = JStr ''Fallback rule-based analysis''
   \<and> fst (analyzeFeedback content (answers ''{"sentiment":7,"urgency":4,"confidence":0.9}'') w)
     = fallbackAnalysis content
   \<and> fst (analyzeFeedback content (answers ''{"sentiment":"ok","urgency":4,"confidence":0.9}'') w)
     = \<lparr> sentiment = ''neutral'', urgency = 4, confidence = Fin 9 (- 1),
         reasoning = JUndefined \<rparr>\<close>
proof -
  have e1: \<open>extractJson (JObj [(''response'', JStr ''{"urgency":4,"confidence":0.9}'')])
      = Inr ''{"urgency":4,"confidence":0.9}''\<close>
    by (simp add: response_eval)
  have p1: \<open>JSON_parse ''{"urgency":4,"confidence":0.9}''
      = Some (JObj [(''urgency'', JNum (Fin 4 0)), (''confidence'', JNum (Fin 9 (- 1)))])\<close>
    by (simp add: json_eval)
  have n1: \<open>normalizeAnalysis (JObj [(''urgency'', JNum (Fin 4 0)),
        (''confidence'', JNum (Fin 9 (- 1)))]) = Inl TypeError\<close>
    by (simp add: normalize_eval)
  have e2: \<open>extractJson (JObj [(''response'',
        JStr ''{"sentiment":7,"urgency":4,"confidence":0.9}'')])
      = Inr ''{"sentiment":7,"urgency":4,"confidence":0.9}''\<close>
    by (simp add: response_eval)
  have p2: \<open>JSON_parse ''{"sentiment":7,"urgency":4,"confidence":0.9}''
      = Some (JObj [(''sentiment'', JNum (Fin 7 0)), (''urgency'', JNum (Fin 4 0)),
          (''confidence'', JNum (Fin 9 (- 1)))])\<close>
    by (simp add: json_eval)
  have n2: \<open>normalizeAnalysis (JObj [(''sentiment'', JNum (Fin 7 0)),
        (''urgency'', JNum (Fin 4 0)), (''confidence'', JNum (Fin 9 (- 1)))]) = Inl TypeError\<close>
    by (simp add: normalize_eval)
  have e3: \<open>extractJson (JObj [(''response'',
        JStr ''{"sentiment":"ok","urgency":4,"confidence":0.9}'')])
      = Inr ''{"sentiment":"ok","urgency":4,"confidence":0.9}''\<close>
    by (simp add: response_eval)
  have p3: \<open>JSON_parse ''{"sentiment":"ok","urgency":4,"confidence":0.9}''
      = Some (JObj [(''sentiment'', JStr ''ok''), (''urgency'', JNum (Fin 4 0)),
          (''confidence'', JNum (Fin 9 (- 1)))])\<close>
    by (simp add: json_eval)
  have n3: \<open>normalizeAnalysis (JObj [(''sentiment'', JStr ''ok''),
        (''urgency'', JNum (Fin 4 0)), (''confidence'', JNum (Fin 9 (- 1)))])
      = Inr \<lparr> sentiment = ''neutral'', urgency = 4, confidence = Fin 9 (- 1),
             reasoning = JUndefined \<rparr>\<close>
    by (simp add: normalize_eval)
  show ?thesis
    by (simp add: analyzeFeedback_answers parse_then_normalize [OF e1 p1] n1
        parse_then_normalize [OF e2 p2] n2 parse_then_normalize [OF e3 p3] n3
        fallbackAnalysis_fields)
qed

text \<open>
  Every answer whose \<^verbatim>\<open>sentiment\<close> is missing or is not a string takes this way: the
  normalisation throws, and the result is the fallback result.
\<close>

theorem sentiment_must_be_a_string:
  assumes "fst (ai (aiRequest content) (ai_state w)) = Resolved response"
    and "extractJson response = Inr m" and "JSON_parse m = Some analysis"
    and "getProperty analysis ''sentiment'' = Inr v" and "\<forall>s. v \<noteq> JStr s"
  shows "normalizeAnalysis analysis = Inl TypeError
     \<and> fst (analyzeFeedback content ai w) = fallbackAnalysis content"
proof -
  from assms(4,5) have n: "normalizeAnalysis analysis = Inl TypeError"
    by (auto simp: normalizeAnalysis_def normalizeSentiment_def split: jsval.splits)
  with assms(1-3) have "primaryPath (fst (ai (aiRequest content) (ai_state w))) = Inl TypeError"
    by (simp add: primaryPath_def parseResponse_def)
  with n show ?thesis by (simp add: analyzeFeedback_result)
qed

theorem sentiment_must_be_a_string_witness:
  \<open>fst (answers ''{"sentiment":null}'' (aiRequest ''Love it'') (ai_state freshWorld))
     = Resolved (JObj [(''response'', JStr ''{"sentiment":null}'')])
   \<and> extractJson (JObj [(''response'', JStr ''{"sentiment":null}'')])
     = Inr ''{"sentiment":null}''
   \<and> JSON_parse ''{"sentiment":null}'' = Some (JObj [(''sentiment'', JNull)])
   \<and> getProperty (JObj [(''sentiment'', JNull)]) ''sentiment'' = Inr JNull
   \<and> fst (analyzeFeedback ''Love it'' (answers ''{"sentiment":null}'') freshWorld)
     = fallbackAnalysis ''Love it''\<close>
proof -
  have a: \<open>fst (answers ''{"sentiment":null}'' (aiRequest ''Love it'') (ai_state freshWorld))
      = Resolved (JObj [(''response'', JStr ''{"sentiment":null}'')])\<close>
    by (simp add: answers_def)
  have e: \<open>extractJson (JObj [(''response'', JStr ''{"sentiment":null}'')])
      = Inr ''{"sentiment":null}''\<close>
    by (simp add: response_eval)
  have p: \<open>JSON_parse ''{"sentiment":null}'' = Some (JObj [(''sentiment'', JNull)])\<close>
    by (simp add: json_eval)
  have g: "getProperty (JObj [(''sentiment'', JNull)]) ''sentiment'' = Inr JNull"
    by (simp add: getProperty_def)
  have h: "\<forall>s. JNull \<noteq> JStr s" by simp
  note t = sentiment_must_be_a_string
      [where ai = \<open>answers ''{"sentiment":null}''\<close> and content = "''Love it''"
         and w = freshWorld, OF a e p g h]
  from a e p g conjunct2 [OF t] show ?thesis by (intro conjI)
qed

text \<open>
  C5. An urgency of 0 in the answer is falsy in \<^verbatim>\<open>parseInt(analysis.urgency) || 3\<close> and
  becomes the default 3, not the lower bound 1; 99 is clamped to 5 and -4 to 1.
\<close>

theorem urgency_zero_gets_default:
  \<open>urgency (fst (analyzeFeedback content (answers ''{"sentiment":"neutral","urgency":0}'') w)) = 3
   \<and> urgency (fst (analyzeFeedback content (answers ''{"sentiment":"neutral","urgency":99}'') w)) = 5
   \<and> urgency (fst (analyzeFeedback content (answers ''{"sentiment":"neutral","urgency":-4}'') w)) = 1\<close>
proof -
  have e1: \<open>extractJson (JObj [(''response'', JStr ''{"sentiment":"neutral","urgency":0}'')])
      = Inr ''{"sentiment":"neutral","urgency":0}''\<close>
    by (simp add: response_eval)
  have p1: \<open>JSON_parse ''{"sentiment":"neutral","urgency":0}''
      = Some (JObj [(''sentiment'', JStr ''neutral''), (''urgency'', JNum (Fin 0 0))])\<close>
    by (simp add: json_eval)
  have n1: \<open>normalizeAnalysis (JObj [(''sentiment'', JStr ''neutral''),
        (''urgency'', JNum (Fin 0 0))])
      = Inr \<lparr> sentiment = ''neutral'', urgency = 3, confidence = Fin 7 (- 1),
             reasoning = JUndefined \<rparr>\<close>
    by (simp add: normalize_eval)
  have e2: \<open>extractJson (JObj [(''response'', JStr ''{"sentiment":"neutral","urgency":99}'')])
      = Inr ''{"sentiment":"neutral","urgency":99}''\<close>
    by (simp add: response_eval)
  have p2: \<open>JSON_parse ''{"sentiment":"neutral","urgency":99}''
      = Some (JObj [(''sentiment'', JStr ''neutral''), (''urgency'', JNum (Fin 99 0))])\<close>
    by (simp add: json_eval)
  have n2: \<open>normalizeAnalysis (JObj [(''sentiment'', JStr ''neutral''),
        (''urgency'', JNum (Fin 99 0))])
      = Inr \<lparr> sentiment = ''neutral'', urgency = 5, confidence = Fin 7 (- 1),
             reasoning = JUndefined \<rparr>\<close>
    by (simp add: normalize_eval)
  have e3: \<open>extractJson (JObj [(''response'', JStr ''{"sentiment":"neutral","urgency":-4}'')])
      = Inr ''{"sentiment":"neutral","urgency":-4}''\<close>
    by (simp add: response_eval)
  have p3: \<open>JSON_parse ''{"sentiment":"neutral","urgency":-4}''
      = Some (JObj [(''sentiment'', JStr ''neutral''), (''urgency'', JNum (Fin (- 4) 0))])\<close>
    by (simp add: json_eval)
  have n3: \<open>normalizeAnalysis (JObj [(''sentiment'', JStr ''neutral''),
        (''urgency'', JNum (Fin (- 4) 0))])
      = Inr \<lparr> sentiment = ''neutral'', urgency = 1, confidence = Fin 7 (- 1),
             reasoning = JUndefined \<rparr>\<close>
    by (simp add: normalize_eval)
  show ?thesis
    by (simp add: analyzeFeedback_answers parse_then_normalize [OF e1 p1] n1
        parse_then_normalize [OF e2 p2] n2 parse_then_normalize [OF e3 p3] n3)
qed

text \<open>
  For every other integer the clamp is what decides: when the urgency member is a non-zero
  integer \<open>v = m * 10 ^ e\<close> of absolute value below \<open>10 ^ 21\<close> (so that its string is
  in plain notation), the urgency of the result is \<open>v\<close> clamped into 1 to 5.
\<close>

theorem integer_urgency_is_clamped:
  assumes "normalizeAnalysis analysis = Inr r"
    and "getProperty analysis ''urgency'' = Inr (JNum (Fin m e))"
    and "m \<noteq> 0" and "0 \<le> e" and "\<bar>m\<bar> * 10 ^ nat e < 10 ^ 21"
  shows "urgency r = min 5 (max 1 (m * 10 ^ nat e))"
proof -
  have nz: "m * 10 ^ nat e \<noteq> 0" using assms(3) by simp
  from assms(1,2) parseInt_integer [OF assms(3-5)] nz show ?thesis
    by (auto simp: normalizeAnalysis_def orDefaultInt_def split: sum.splits)
qed

theorem integer_urgency_is_clamped_witness:
  "normalizeAnalysis (JObj [(''sentiment'', JStr ''neutral''), (''urgency'', JNum (Fin 99 0))])
     = Inr \<lparr> sentiment = ''neutral'', urgency = 5, confidence = Fin 7 (- 1),
             reasoning = JUndefined \<rparr>
   \<and> getProperty (JObj [(''sentiment'', JStr ''neutral''), (''urgency'', JNum (Fin 99 0))])
       ''urgency'' = Inr (JNum (Fin 99 0))
   \<and> (99::int) \<noteq> 0 \<and> (0::int) \<le> 0 \<and> \<bar>99::int\<bar> * 10 ^ nat 0 < 10 ^ 21
   \<and> urgency \<lparr> sentiment = ''neutral'', urgency = 5, confidence = Fin 7 (- 1),
             reasoning = JUndefined \<rparr> = min 5 (max 1 (99 * 10 ^ nat 0))"
proof -
  let ?a = "JObj [(''sentiment'', JStr ''neutral''), (''urgency'', JNum (Fin 99 0))]"
  have n: "normalizeAnalysis ?a
      = Inr \<lparr> sentiment = ''neutral'', urgency = 5, confidence = Fin 7 (- 1),
             reasoning = JUndefined \<rparr>"
    by (simp add: normalize_eval)
  have g: "getProperty ?a ''urgency'' = Inr (JNum (Fin 99 0))"
    by (simp add: getProperty_def)
  have h: "(99::int) \<noteq> 0" "(0::int) \<le> 0" "\<bar>99::int\<bar> * 10 ^ nat 0 < 10 ^ 21"
    by simp_all
  from integer_urgency_is_clamped [OF n g h] n g h show ?thesis by (intro conjI)
qed

section \<open>Two answers worked through\<close>

text \<open>
  An answer wrapped in a \<^verbatim>\<open>json\<close> code fence is unwrapped and read, and an answer with a
  verbose sentiment, an urgency out of range and a confidence that is no number is
  repaired field by field: \<^verbatim>\<open>VeryPositive!\<close> is positive, 99 is clamped to 5, and
  \<^verbatim>\<open>n/a\<close> gives the default 0.7.
\<close>

theorem fenced_and_repaired_answers:
  \<open>fst (analyzeFeedback content
       (answers ''```json\<newline>{"sentiment":"positive","urgency":1,"confidence":0.9}\<newline>```'') w)
     = \<lparr> sentiment = ''positive'', urgency = 1, confidence = Fin 9 (- 1),
         reasoning = JUndefined \<rparr>
   \<and> fst (analyzeFeedback content
       (answers ''{"sentiment":"VeryPositive!","urgency":99,"confidence":"n/a"}'') w)
     = \<lparr> sentiment = ''positive'', urgency = 5, confidence = Fin 7 (- 1),
         reasoning = JUndefined \<rparr>\<close>
proof -
  have e1: \<open>extractJson (JObj [(''response'',
        JStr ''```json\<newline>{"sentiment":"positive","urgency":1,"confidence":0.9}\<newline>```'')])
      = Inr ''{"sentiment":"positive","urgency":1,"confidence":0.9}''\<close>
    by (simp add: response_eval)
  have p1: \<open>JSON_parse ''{"sentiment":"positive","urgency":1,"confidence":0.9}''
      = Some (JObj [(''sentiment'', JStr ''positive''), (''urgency'', JNum (Fin 1 0)),
          (''confidence'', JNum (Fin 9 (- 1)))])\<close>
    by (simp add: json_eval)
  have n1: \<open>normalizeAnalysis (JObj [(''sentiment'', JStr ''positive''),
        (''urgency'', JNum (Fin 1 0)), (''confidence'', JNum (Fin 9 (- 1)))])
      = Inr \<lparr> sentiment = ''positive'', urgency = 1, confidence = Fin 9 (- 1),
             reasoning = JUndefined \<rparr>\<close>
    by (simp add: normalize_eval)
  have e2: \<open>extractJson (JObj [(''response'',
        JStr ''{"sentiment":"VeryPositive!","urgency":99,"confidence":"n/a"}'')])
      = Inr ''{"sentiment":"VeryPositive!","urgency":99,"confidence":"n/a"}''\<close>
    by (simp add: response_eval)
  have p2: \<open>JSON_parse ''{"sentiment":"VeryPositive!","urgency":99,"confidence":"n/a"}''
      = Some (JObj [(''sentiment'', JStr ''VeryPositive!''), (''urgency'', JNum (Fin 99 0)),
          (''confidence'', JStr ''n/a'')])\<close>
    by (simp add: json_eval)
  have n2: \<open>normalizeAnalysis (JObj [(''sentiment'', JStr ''VeryPositive!''),
        (''urgency'', JNum (Fin 99 0)), (''confidence'', JStr ''n/a'')])
      = Inr \<lparr> sentiment = ''positive'', urgency = 5, confidence = Fin 7 (- 1),
             reasoning = JUndefined \<rparr>\<close>
    by (simp add: normalize_eval)
  show ?thesis
    by (simp add: analyzeFeedback_answers parse_then_normalize [OF e1 p1] n1
        parse_then_normalize [OF e2 p2] n2)
qed

section \<open>Properties of the extraction\<close>








section \<open>Properties of the batch runner\<close>













end
